theory Spec2Isabelle
  imports Complex_Main "HOL-Library.AList"
begin

section \<open>Data model\<close>

text \<open>
  A Python \<open>str\<close> is a \<open>string\<close> whose characters are code points below 256.
  \<open>str.strip()\<close> and \<open>str.lower()\<close> are Python's own tables on that range.
\<close>

definition py_isspace :: "char \<Rightarrow> bool" where
  "py_isspace c =
     (let n = (of_char c :: nat)
      in (9 \<le> n \<and> n \<le> 13) \<or> (28 \<le> n \<and> n \<le> 32) \<or> n = 133 \<or> n = 160)"

definition py_strip :: "string \<Rightarrow> string" where
  "py_strip s = rev (dropWhile py_isspace (rev (dropWhile py_isspace s)))"

definition lower_char :: "char \<Rightarrow> char" where
  "lower_char c =
     (let n = (of_char c :: nat)
      in if (65 \<le> n \<and> n \<le> 90) \<or> (192 \<le> n \<and> n \<le> 222 \<and> n \<noteq> 215)
         then char_of (n + 32) else c)"

definition py_lower :: "string \<Rightarrow> string" where
  "py_lower s = map lower_char s"

text \<open>
  The values \<open>response.json()\<close> can return. \<open>JNull\<close> is Python's \<open>None\<close>. A \<open>dict\<close> is an
  association list of distinct keys in insertion order, read with \<open>map_of\<close> and written
  with \<open>AList.update\<close> (an existing key keeps its place and takes the new value, a new key
  goes last).
  The floats \<open>NaN\<close> and \<open>Infinity\<close> are not represented.
\<close>

datatype json =
    JNull
  | JBool bool
  | JInt int
  | JFloat real
  | JStr string
  | JArr "json list"
  | JObj "(string \<times> json) list"

text \<open>\<open>d.get(key, default)\<close> on a \<open>dict\<close>.\<close>

definition dict_get :: "(string \<times> json) list \<Rightarrow> string \<Rightarrow> json \<Rightarrow> json" where
  "dict_get d k dflt = (case map_of d k of None \<Rightarrow> dflt | Some v \<Rightarrow> v)"

text \<open>Python's truth value of an object, as \<open>if found_id:\<close> tests it.\<close>

fun truthy :: "json \<Rightarrow> bool" where
  "truthy JNull = False"
| "truthy (JBool b) = b"
| "truthy (JInt i) = (i \<noteq> 0)"
| "truthy (JFloat r) = (r \<noteq> 0)"
| "truthy (JStr s) = (s \<noteq> [])"
| "truthy (JArr xs) = (xs \<noteq> [])"
| "truthy (JObj d) = (d \<noteq> [])"

text \<open>
  An \<open>xml.etree.ElementTree.Element\<close>: its tag, its text (\<open>None\<close> when there is none) and
  its immediate child elements in document order.
\<close>

datatype element = Element (tag: string) (elem_text: "string option") (children: "element list")

text \<open>\<open>root.findall(name)\<close> with a plain tag name: the immediate children with that tag.\<close>

definition findall :: "element \<Rightarrow> string \<Rightarrow> element list" where
  "findall e name = filter (\<lambda>c. tag c = name) (children e)"

text \<open>
  An HTTP response as the code reads it: \<open>response.status_code\<close>, \<open>response.text\<close>, and the
  outcome of \<open>response.json()\<close> (\<open>None\<close> when it raises \<open>ValueError\<close>).
\<close>

record response =
  status_code :: nat
  rtext :: string
  rjson :: "json option"

text \<open>Why a request failed: the transport, or the status \<open>raise_for_status()\<close> rejects.\<close>

datatype cause = Transport string | Http_status nat

text \<open>What \<open>session.post\<close> or \<open>session.get\<close> does: raise a \<open>RequestException\<close>, or return.\<close>

datatype http_result = Transport_error string | Reply response

text \<open>\<open>response.raise_for_status()\<close> raises \<open>HTTPError\<close> on a 4xx or 5xx status.\<close>

definition http_error :: "response \<Rightarrow> bool" where
  "http_error r = (400 \<le> status_code r \<and> status_code r < 600)"

datatype exn = ParseError | AttributeError | SystemExit nat

datatype level = Info | Warning | Error

datatype msg =
    Auth_ok string
  | Auth_failed cause
  | Logout_ok
  | Logout_status nat
  | Logout_failed string
  | Xml_fallback
  | Unknown_root string
  | Fetch_failed cause
  | Found string json
  | Not_found string

datatype meth = GET | POST

text \<open>
  What a run does, in order: the requests it sends, the lines it logs, what it prints.
  The table \<open>pretty_print_suppliers\<close> prints is kept as its cell values, before \<open>str()\<close>
  and padding.
\<close>

datatype event =
    Request meth string "(string \<times> string) list"
  | Log level msg
  | Print_empty
  | Print_table "json list list"

definition LOGIN :: string where "LOGIN = []"
definition PASSWORD_SHA1 :: string where "PASSWORD_SHA1 = []"
definition IIKO_HOST :: string where "IIKO_HOST = []"

section \<open>The functions of \<open>fetch_supplier_id.py\<close>\<close>

definition login :: "http_result \<Rightarrow> event list \<times> (exn + string)" where
  "login post =
     (let req = Request POST (IIKO_HOST @ ''/resto/api/auth'')
                  [(''login'', LOGIN), (''pass'', PASSWORD_SHA1)]
      in case post of
           Transport_error c \<Rightarrow>
             ([req, Log Error (Auth_failed (Transport c))], Inl (SystemExit 1))
         | Reply response \<Rightarrow>
             if http_error response
             then ([req, Log Error (Auth_failed (Http_status (status_code response)))],
                   Inl (SystemExit 1))
             else (let token = py_strip (rtext response)
                   in ([req, Log Info (Auth_ok token)], Inr token)))"

definition logout :: "http_result \<Rightarrow> string \<Rightarrow> event list" where
  "logout post token =
     (let req = Request POST (IIKO_HOST @ ''/resto/api/logout'') [(''key'', token)]
      in case post of
           Transport_error c \<Rightarrow> [req, Log Warning (Logout_failed c)]
         | Reply response \<Rightarrow>
             if status_code response = 200 then [req, Log Info Logout_ok]
             else [req, Log Warning (Logout_status (status_code response))])"

text \<open>\<open>child.text or ""\<close>.\<close>

definition text_or_empty :: "element \<Rightarrow> string" where
  "text_or_empty child =
     (case elem_text child of None \<Rightarrow> [] | Some t \<Rightarrow> if t = [] then [] else t)"

text \<open>The inner loop of \<open>fetch_all_suppliers\<close>: \<open>emp_data[child.tag] = child.text or ""\<close>.\<close>

definition emp_data :: "element \<Rightarrow> (string \<times> json) list" where
  "emp_data emp =
     fold (\<lambda>child d. AList.update (tag child) (JStr (text_or_empty child)) d) (children emp) []"

text \<open>
  \<open>fromstring\<close> is \<open>ElementTree.fromstring\<close>: \<open>None\<close> when it raises \<open>ParseError\<close>, which is
  neither a \<open>ValueError\<close> nor a \<open>RequestException\<close>.
\<close>

definition fetch_all_suppliers ::
  "(string \<Rightarrow> element option) \<Rightarrow> http_result \<Rightarrow> string \<Rightarrow> event list \<times> (exn + json list)" where
  "fetch_all_suppliers fromstring get token =
     (let req = Request GET (IIKO_HOST @ ''/resto/api/suppliers'') [(''key'', token)]
      in case get of
           Transport_error c \<Rightarrow> ([req, Log Error (Fetch_failed (Transport c))], Inr [])
         | Reply response \<Rightarrow>
             if http_error response
             then ([req, Log Error (Fetch_failed (Http_status (status_code response)))], Inr [])
             else (case rjson response of
                     Some suppliers \<Rightarrow>
                       ([req], Inr (case suppliers of JArr xs \<Rightarrow> xs | _ \<Rightarrow> []))
                   | None \<Rightarrow>
                       (case fromstring (rtext response) of
                          None \<Rightarrow> ([req, Log Warning Xml_fallback], Inl ParseError)
                        | Some root_elem \<Rightarrow>
                            if tag root_elem = ''employees''
                            then ([req, Log Warning Xml_fallback],
                                  Inr (map (\<lambda>emp. JObj (emp_data emp)) (findall root_elem ''employee'')))
                            else if tag root_elem = ''employee''
                            then ([req, Log Warning Xml_fallback],
                                  Inr (map (\<lambda>emp. JObj (emp_data emp)) [root_elem]))
                            else ([req, Log Warning Xml_fallback,
                                   Log Error (Unknown_root (tag root_elem))], Inr []))))"

text \<open>
  The loop of \<open>fetch_supplier_id\<close>. \<open>sup.get("name", "").strip()\<close> raises \<open>AttributeError\<close>
  when \<open>sup\<close> is not a \<open>dict\<close> or the name is not a \<open>str\<close>; \<open>sup.get("id")\<close> is \<open>None\<close>
  when the key is missing.
\<close>

fun fetch_supplier_id :: "json list \<Rightarrow> string \<Rightarrow> exn + json" where
  "fetch_supplier_id [] supplier_name = Inr JNull"
| "fetch_supplier_id (supplier # suppliers) supplier_name =
     (case supplier of
        JObj d \<Rightarrow>
          (case dict_get d ''name'' (JStr []) of
             JStr n \<Rightarrow>
               if py_lower (py_strip n) = py_lower supplier_name
               then Inr (dict_get d ''id'' JNull)
               else fetch_supplier_id suppliers supplier_name
           | _ \<Rightarrow> Inl AttributeError)
      | _ \<Rightarrow> Inl AttributeError)"

definition columns :: "string list" where
  "columns = [''id'', ''code'', ''name'', ''supplier'', ''deleted'']"

text \<open>One row of the table: \<open>s.get(col, "")\<close> for each column, \<open>AttributeError\<close> off a \<open>dict\<close>.\<close>

fun table_rows :: "json list \<Rightarrow> exn + json list list" where
  "table_rows [] = Inr []"
| "table_rows (s # suppliers) =
     (case s of
        JObj d \<Rightarrow>
          (case table_rows suppliers of
             Inl e \<Rightarrow> Inl e
           | Inr rows \<Rightarrow> Inr (map (\<lambda>col. dict_get d col (JStr [])) columns # rows))
      | _ \<Rightarrow> Inl AttributeError)"

definition pretty_print_suppliers :: "json list \<Rightarrow> event list \<times> (exn + unit)" where
  "pretty_print_suppliers suppliers =
     (if suppliers = [] then ([Print_empty], Inr ())
      else case table_rows suppliers of
             Inl e \<Rightarrow> ([], Inl e)
           | Inr rows \<Rightarrow> ([Print_table rows], Inr ()))"

text \<open>
  What a run depends on: the three replies of the server, one per endpoint, the XML
  parser, and the name \<open>main\<close> looks for (a constant of the source, written in Cyrillic,
  which the strings of this model do not reach).
\<close>

record env =
  auth_reply :: http_result
  suppliers_reply :: http_result
  logout_reply :: http_result
  fromstring :: "string \<Rightarrow> element option"
  search_name :: string

text \<open>The body of the \<open>try\<close> in \<open>main\<close>.\<close>

definition main_try :: "env \<Rightarrow> string \<Rightarrow> event list \<times> (exn + unit)" where
  "main_try e token =
     (case fetch_all_suppliers (fromstring e) (suppliers_reply e) token of
        (ev_fetch, Inl x) \<Rightarrow> (ev_fetch, Inl x)
      | (ev_fetch, Inr suppliers) \<Rightarrow>
          (case pretty_print_suppliers suppliers of
             (ev_print, Inl x) \<Rightarrow> (ev_fetch @ ev_print, Inl x)
           | (ev_print, Inr _) \<Rightarrow>
               (case fetch_supplier_id suppliers (search_name e) of
                  Inl x \<Rightarrow> (ev_fetch @ ev_print, Inl x)
                | Inr found_id \<Rightarrow>
                    (ev_fetch @ ev_print @
                       [if truthy found_id then Log Info (Found (search_name e) found_id)
                        else Log Warning (Not_found (search_name e))],
                     Inr ()))))"

text \<open>How the process ends: \<open>main\<close> returns, or an exception leaves it.\<close>

datatype outcome = Returned | Uncaught exn

text \<open>\<open>login\<close> is called before the \<open>try\<close>; \<open>logout\<close> is the \<open>finally\<close>.\<close>

definition main :: "env \<Rightarrow> event list \<times> outcome" where
  "main e =
     (case login (auth_reply e) of
        (ev_login, Inl x) \<Rightarrow> (ev_login, Uncaught x)
      | (ev_login, Inr token) \<Rightarrow>
          (case main_try e token of
             (ev_try, r) \<Rightarrow>
               (ev_login @ ev_try @ logout (logout_reply e) token,
                case r of Inl x \<Rightarrow> Uncaught x | Inr _ \<Rightarrow> Returned)))"

text \<open>
  The exit status of the interpreter: 0 when \<open>main\<close> returns, the argument of
  \<open>sys.exit\<close>, and 1 after a traceback.
\<close>

fun exit_status :: "outcome \<Rightarrow> nat" where
  "exit_status Returned = 0"
| "exit_status (Uncaught (SystemExit n)) = n"
| "exit_status (Uncaught _) = 1"

text \<open>The requests a run sent to the logout endpoint.\<close>

fun is_logout :: "event \<Rightarrow> bool" where
  "is_logout (Request m url params) = (m = POST \<and> url = IIKO_HOST @ ''/resto/api/logout'')"
| "is_logout _ = False"

definition logout_calls :: "event list \<Rightarrow> nat" where
  "logout_calls evs = length (filter is_logout evs)"

section \<open>Vocabulary of the properties\<close>

text \<open>
  The \<open>RequestException\<close> that \<open>session.get\<close> or \<open>session.post\<close> followed by
  \<open>raise_for_status()\<close> raises, if any.
\<close>

fun request_failure :: "http_result \<Rightarrow> cause option" where
  "request_failure (Transport_error c) = Some (Transport c)"
| "request_failure (Reply r) = (if http_error r then Some (Http_status (status_code r)) else None)"

fun is_dict :: "json \<Rightarrow> bool" where
  "is_dict (JObj d) = True"
| "is_dict _ = False"

text \<open>A supplier record: a \<open>dict\<close> whose \<open>name\<close>, when it has one, is a \<open>str\<close>.\<close>

definition is_record :: "json \<Rightarrow> bool" where
  "is_record s =
     (case s of
        JObj d \<Rightarrow> (case dict_get d ''name'' (JStr []) of JStr n \<Rightarrow> True | _ \<Rightarrow> False)
      | _ \<Rightarrow> False)"

definition record_name :: "json \<Rightarrow> string" where
  "record_name s =
     (case s of
        JObj d \<Rightarrow> (case dict_get d ''name'' (JStr []) of JStr n \<Rightarrow> n | _ \<Rightarrow> [])
      | _ \<Rightarrow> [])"

definition record_id :: "json \<Rightarrow> json" where
  "record_id s = (case s of JObj d \<Rightarrow> dict_get d ''id'' JNull | _ \<Rightarrow> JNull)"

text \<open>
  The lookup in the words of the specification: the first record whose name equals the
  target, both sides trimmed and lower-cased.
\<close>

definition spec_findByName :: "json list \<Rightarrow> string \<Rightarrow> json" where
  "spec_findByName records target =
     (case find (\<lambda>s. py_lower (py_strip (record_name s)) = py_lower (py_strip target)) records of
        None \<Rightarrow> JNull
      | Some s \<Rightarrow> record_id s)"

text \<open>The children of an element that carry a given tag, in document order.\<close>

definition tagged :: "string \<Rightarrow> element \<Rightarrow> element list" where
  "tagged t emp = filter (\<lambda>c. tag c = t) (children emp)"

text \<open>
  The text content of an element in the words of the specification: its text, the empty
  string when it has none.
\<close>

definition text_content :: "element \<Rightarrow> string" where
  "text_content c = (case elem_text c of None \<Rightarrow> [] | Some t \<Rightarrow> t)"

text \<open>
  A record in the words of the specification: a \<open>dict\<close> that maps the tag name of every
  immediate child of the element to the text content of that child.
\<close>

definition spec_record_of :: "json \<Rightarrow> element \<Rightarrow> bool" where
  "spec_record_of rec emp =
     (case rec of
        JObj d \<Rightarrow>
          list_all (\<lambda>c. map_of d (tag c) = Some (JStr (text_content c))) (children emp)
      | _ \<Rightarrow> False)"

text \<open>
  The same with the last child deciding: a \<open>dict\<close> that holds each key once, whose keys are
  the tag names of the immediate children, and that maps each of these tag names to the
  text content of the last child carrying it.
\<close>

definition last_wins_record :: "json \<Rightarrow> element \<Rightarrow> bool" where
  "last_wins_record rec emp =
     (case rec of
        JObj d \<Rightarrow>
          distinct (map fst d) \<and> set (map fst d) = set (map tag (children emp)) \<and>
          list_all (\<lambda>c. map_of d (tag c) = Some (JStr (text_content (last (tagged (tag c) emp)))))
            (children emp)
      | _ \<Rightarrow> False)"

section \<open>Example inputs\<close>

definition example_employees :: element where
  "example_employees =
     Element ''employees'' None
       [Element ''employee'' None
          [Element ''id'' (Some ''7'') [], Element ''name'' (Some ''Beta LLC'') []]]"

definition example_employee :: element where
  "example_employee =
     Element ''employee'' None
       [Element ''id'' (Some ''7'') [], Element ''phone'' (Some ''1'') [],
        Element ''phone'' (Some ''2'') [], Element ''supplier'' None []]"

definition example_html :: element where
  "example_html = Element ''html'' None [Element ''body'' (Some ''Bad Gateway'') []]"

text \<open>An XML parser that knows three documents and rejects every other body.\<close>

definition example_fromstring :: "string \<Rightarrow> element option" where
  "example_fromstring body =
     (if body = ''<employees><employee><id>7</id><name>Beta LLC</name></employee></employees>''
      then Some example_employees
      else if body = ''<employee><id>7</id><phone>1</phone><phone>2</phone><supplier/></employee>''
      then Some example_employee
      else if body = ''<html><body>Bad Gateway</body></html>''
      then Some example_html
      else None)"

definition example_reply :: "string \<Rightarrow> json option \<Rightarrow> http_result" where
  "example_reply body j = Reply \<lparr>status_code = 200, rtext = body, rjson = j\<rparr>"

text \<open>A run whose login and logout succeed, with the given reply of the suppliers endpoint.\<close>

definition example_env :: "http_result \<Rightarrow> string \<Rightarrow> env" where
  "example_env reply name =
     \<lparr>auth_reply = example_reply ''token-1'' None,
      suppliers_reply = reply,
      logout_reply = example_reply [] None,
      fromstring = example_fromstring,
      search_name = name\<rparr>"

definition example_records :: "json list" where
  "example_records =
     [JObj [(''id'', JStr ''41''), (''name'', JStr ''Beta LLC'')],
      JObj [(''id'', JStr ''42''), (''name'', JStr ''  Acme Co  '')],
      JObj [(''id'', JStr ''43''), (''name'', JStr ''ACME CO'')]]"

text \<open>A directory whose second record has the name looked for and no \<open>id\<close>.\<close>

definition example_no_id :: "json list" where
  "example_no_id =
     [JObj [(''id'', JStr ''41''), (''name'', JStr ''Beta LLC'')],
      JObj [(''code'', JStr ''A1''), (''name'', JStr ''Acme Co'')],
      JObj [(''id'', JStr ''43''), (''name'', JStr ''Gamma'')]]"

definition quoted :: "string \<Rightarrow> string" where
  "quoted s = CHR 0x22 # s @ [CHR 0x22]"

text \<open>The JSON text of \<open>example_no_id\<close>.\<close>

definition example_no_id_body :: string where
  "example_no_id_body =
     ''[{'' @ quoted ''id'' @ '':'' @ quoted ''41'' @ '','' @ quoted ''name'' @ '':'' @ quoted ''Beta LLC''
     @ ''},{'' @ quoted ''code'' @ '':'' @ quoted ''A1'' @ '','' @ quoted ''name'' @ '':'' @ quoted ''Acme Co''
     @ ''},{'' @ quoted ''id'' @ '':'' @ quoted ''43'' @ '','' @ quoted ''name'' @ '':'' @ quoted ''Gamma''
     @ ''}]''"

section \<open>Auxiliary facts\<close>

lemma fold_update_lookup:
  "map_of (fold (\<lambda>c d. AList.update (tag c) (JStr (text_or_empty c)) d) cs d0) k =
     (if filter (\<lambda>c. tag c = k) cs = [] then map_of d0 k
      else Some (JStr (text_or_empty (last (filter (\<lambda>c. tag c = k) cs)))))"
  by (induction cs rule: rev_induct) (simp_all add: update_conv')

lemma fold_update_distinct:
  "distinct (map fst d0) \<Longrightarrow>
   distinct (map fst (fold (\<lambda>c d. AList.update (tag c) (JStr (text_or_empty c)) d) cs d0))"
  by (induction cs rule: rev_induct) (simp_all add: distinct_update)

lemma fold_update_keys:
  "fst ` set (fold (\<lambda>c d. AList.update (tag c) (JStr (text_or_empty c)) d) cs d0) =
     tag ` set cs \<union> fst ` set d0"
  by (induction cs rule: rev_induct) (auto simp: dom_update)

lemma emp_data_lookup:
  "map_of (emp_data emp) k =
     (if tagged k emp = [] then None else Some (JStr (text_or_empty (last (tagged k emp)))))"
  by (simp add: emp_data_def tagged_def fold_update_lookup)

lemma emp_data_distinct: "distinct (map fst (emp_data emp))"
  by (simp add: emp_data_def fold_update_distinct)

lemma emp_data_keys: "fst ` set (emp_data emp) = tag ` set (children emp)"
  by (simp add: emp_data_def fold_update_keys)

lemma text_or_empty_content: "text_or_empty c = text_content c"
  by (simp add: text_or_empty_def text_content_def split: option.splits)

lemma tagged_self: "c \<in> set (children emp) \<Longrightarrow> tagged (tag c) emp \<noteq> []"
  by (auto simp: tagged_def filter_empty_conv)

lemma last_wins_record_emp_data: "last_wins_record (JObj (emp_data emp)) emp"
  by (simp add: last_wins_record_def emp_data_distinct emp_data_keys emp_data_lookup list_all_iff
        tagged_self text_or_empty_content)

lemma count_list_distinct: "distinct xs \<Longrightarrow> x \<in> set xs \<Longrightarrow> count_list xs x = 1"
  by (induction xs) auto

text \<open>When no two children share a tag, the child carrying a tag is the child itself.\<close>

lemma filter_tag_unique:
  "distinct (map tag cs) \<Longrightarrow> c \<in> set cs \<Longrightarrow> filter (\<lambda>x. tag x = tag c) cs = [c]"
proof (induction cs)
  case Nil
  then show ?case by simp
next
  case (Cons a cs)
  show ?case
  proof (cases "c = a")
    case True
    have "\<forall>x \<in> set cs. tag x \<noteq> tag a"
      using Cons.prems(1) by (auto simp: image_iff)
    then have "filter (\<lambda>x. tag x = tag a) cs = []"
      by (simp add: filter_empty_conv)
    with True show ?thesis by simp
  next
    case False
    with Cons.prems have in_cs: "c \<in> set cs" by simp
    then have "tag a \<noteq> tag c"
      using Cons.prems(1) by (auto simp: image_iff)
    with Cons.IH in_cs Cons.prems(1) show ?thesis by simp
  qed
qed

lemma last_tagged_unique:
  "distinct (map tag (children emp)) \<Longrightarrow> c \<in> set (children emp) \<Longrightarrow>
   last (tagged (tag c) emp) = c"
  by (simp add: tagged_def filter_tag_unique)

text \<open>Over children with pairwise different tags the two readings of a record agree.\<close>

lemma last_wins_record_distinct:
  "distinct (map tag (children emp)) \<Longrightarrow> last_wins_record rec emp \<Longrightarrow> spec_record_of rec emp"
  by (cases rec)
     (auto simp: last_wins_record_def spec_record_of_def list_all_iff last_tagged_unique)

lemma fetch_request_failure:
  "request_failure get = Some c \<Longrightarrow>
   fetch_all_suppliers fs get token =
     ([Request GET (IIKO_HOST @ ''/resto/api/suppliers'') [(''key'', token)],
       Log Error (Fetch_failed c)], Inr [])"
  by (cases get) (auto simp: fetch_all_suppliers_def split: if_splits)

text \<open>
  Whatever the parser and the status, a body that neither \<open>response.json()\<close> nor
  \<open>fromstring\<close> accepts makes the fetch raise.
\<close>

lemma parse_error_escapes:
  "\<not> http_error r \<Longrightarrow> rjson r = None \<Longrightarrow> fs (rtext r) = None \<Longrightarrow>
   snd (fetch_all_suppliers fs (Reply r) token) = Inl ParseError"
  by (simp add: fetch_all_suppliers_def)

lemma is_record_dict: "is_record s \<Longrightarrow> is_dict s"
  by (cases s) (simp_all add: is_record_def)

lemma table_rows_dicts: "list_all is_dict xs \<Longrightarrow> \<exists>rows. table_rows xs = Inr rows"
  by (induction xs) (auto split: json.splits)

text \<open>The loop passes over records whose name is a string other than the one looked for.\<close>

lemma fetch_supplier_id_skip:
  "list_all (\<lambda>s. is_record s \<and> py_lower (py_strip (record_name s)) \<noteq> py_lower q) pre \<Longrightarrow>
   fetch_supplier_id (pre @ xs) q = fetch_supplier_id xs q"
  by (induction pre) (auto simp: is_record_def record_name_def split: json.splits)

text \<open>No function but \<open>logout\<close> sends a request to the logout endpoint.\<close>

lemma logout_calls_append [simp]: "logout_calls (xs @ ys) = logout_calls xs + logout_calls ys"
  by (simp add: logout_calls_def)

lemma logout_calls_login [simp]: "logout_calls (fst (login p)) = 0"
  by (auto simp: login_def logout_calls_def Let_def split: http_result.splits)

lemma logout_calls_fetch [simp]: "logout_calls (fst (fetch_all_suppliers fs g t)) = 0"
  by (auto simp: fetch_all_suppliers_def logout_calls_def Let_def
           split: http_result.splits option.splits)

lemma logout_calls_print [simp]: "logout_calls (fst (pretty_print_suppliers xs)) = 0"
  by (auto simp: pretty_print_suppliers_def logout_calls_def split: sum.splits)

lemma logout_calls_logout [simp]: "logout_calls (logout p t) = 1"
  by (auto simp: logout_def logout_calls_def Let_def split: http_result.splits)

lemma logout_calls_fetchD: "fetch_all_suppliers fs g t = (evs, r) \<Longrightarrow> logout_calls evs = 0"
  using logout_calls_fetch [of fs g t] by simp

lemma logout_calls_printD: "pretty_print_suppliers xs = (evs, r) \<Longrightarrow> logout_calls evs = 0"
  using logout_calls_print [of xs] by simp

lemma logout_calls_try [simp]: "logout_calls (fst (main_try e t)) = 0"
  by (auto simp: main_try_def logout_calls_def[of "[_]"] split: prod.splits sum.splits
           dest: logout_calls_fetchD logout_calls_printD)

lemma login_ok: "request_failure p = None \<Longrightarrow> \<exists>evs tok. login p = (evs, Inr tok)"
  by (cases p) (auto simp: login_def Let_def split: if_splits)

section \<open>The response normalizer\<close>

text \<open>
  C4. When \<open>response.json()\<close> succeeds on a body that came with a good status, the fetch
  sends its one request, logs nothing and raises nothing; it returns the elements of a
  top-level array as they are, in order, and the empty list for any other JSON value.
\<close>

theorem json_body_returned_verbatim:
  assumes "\<not> http_error r" and "rjson r = Some v"
  shows "(\<forall>xs. v = JArr xs \<longrightarrow> fetch_all_suppliers fs (Reply r) token =
            ([Request GET (IIKO_HOST @ ''/resto/api/suppliers'') [(''key'', token)]], Inr xs)) \<and>
         ((\<forall>xs. v \<noteq> JArr xs) \<longrightarrow> fetch_all_suppliers fs (Reply r) token =
            ([Request GET (IIKO_HOST @ ''/resto/api/suppliers'') [(''key'', token)]], Inr []))"
  using assms by (cases v) (simp_all add: fetch_all_suppliers_def)

text \<open>The bodies \<open>[1, 2]\<close> and \<open>null\<close>.\<close>

theorem json_body_returned_verbatim_witness:
  "\<not> http_error \<lparr>status_code = 200, rtext = ''[1, 2]'', rjson = Some (JArr [JInt 1, JInt 2])\<rparr> \<and>
   fetch_all_suppliers example_fromstring
     (Reply \<lparr>status_code = 200, rtext = ''[1, 2]'', rjson = Some (JArr [JInt 1, JInt 2])\<rparr>)
     ''token-1'' =
     ([Request GET (IIKO_HOST @ ''/resto/api/suppliers'') [(''key'', ''token-1'')]],
      Inr [JInt 1, JInt 2]) \<and>
   \<not> http_error \<lparr>status_code = 200, rtext = ''null'', rjson = Some JNull\<rparr> \<and>
   fetch_all_suppliers example_fromstring
     (Reply \<lparr>status_code = 200, rtext = ''null'', rjson = Some JNull\<rparr>) ''token-1'' =
     ([Request GET (IIKO_HOST @ ''/resto/api/suppliers'') [(''key'', ''token-1'')]], Inr [])"
proof -
  let ?a = "\<lparr>status_code = 200, rtext = ''[1, 2]'', rjson = Some (JArr [JInt 1, JInt 2])\<rparr>"
  let ?b = "\<lparr>status_code = 200, rtext = ''null'', rjson = Some JNull\<rparr>"
  have a: "\<not> http_error ?a" and b: "\<not> http_error ?b"
    by (simp_all add: http_error_def)
  have ja: "rjson ?a = Some (JArr [JInt 1, JInt 2])" and jb: "rjson ?b = Some JNull"
    by simp_all
  have nb: "\<forall>xs. JNull \<noteq> JArr xs" by simp
  from json_body_returned_verbatim [OF a ja, of example_fromstring "''token-1''"]
       json_body_returned_verbatim [OF b jb, of example_fromstring "''token-1''"] nb a b
  show ?thesis by blast
qed

text \<open>
  C5, as the code has it. When \<open>response.json()\<close> fails and the body is a well-formed XML
  document, a root \<open>employees\<close> gives one record per immediate \<open>employee\<close> child, in
  document order, and a root \<open>employee\<close> gives exactly one record, that of the root. The
  keys of a record are the tag names of the immediate children of its element, each held
  once, and the value under a tag name is the text content of the last child carrying it,
  the empty string when that child has no text.
\<close>

theorem xml_employee_records:
  assumes "\<not> http_error r" and "rjson r = None" and "fs (rtext r) = Some root_elem"
  shows "(tag root_elem = ''employees'' \<longrightarrow>
            (\<exists>recs. snd (fetch_all_suppliers fs (Reply r) token) = Inr recs \<and>
                    list_all2 last_wins_record recs
                      (filter (\<lambda>c. tag c = ''employee'') (children root_elem)))) \<and>
         (tag root_elem = ''employee'' \<longrightarrow>
            (\<exists>rec. snd (fetch_all_suppliers fs (Reply r) token) = Inr [rec] \<and>
                   last_wins_record rec root_elem))"
  using assms
  by (simp add: fetch_all_suppliers_def findall_def list_all2_map1 list_all2_same
        last_wins_record_emp_data)

text \<open>A document with root \<open>employees\<close> and one with a bare \<open>employee\<close>.\<close>

theorem xml_employee_records_witness:
  "\<not> http_error \<lparr>status_code = 200,
      rtext = ''<employees><employee><id>7</id><name>Beta LLC</name></employee></employees>'',
      rjson = None\<rparr> \<and>
   tag example_employees = ''employees'' \<and>
   (\<exists>recs. snd (fetch_all_suppliers example_fromstring
       (Reply \<lparr>status_code = 200,
          rtext = ''<employees><employee><id>7</id><name>Beta LLC</name></employee></employees>'',
          rjson = None\<rparr>) ''token-1'') = Inr recs \<and>
      list_all2 last_wins_record recs
        (filter (\<lambda>c. tag c = ''employee'') (children example_employees))) \<and>
   tag example_employee = ''employee'' \<and>
   (\<exists>rec. snd (fetch_all_suppliers example_fromstring
       (Reply \<lparr>status_code = 200,
          rtext = ''<employee><id>7</id><phone>1</phone><phone>2</phone><supplier/></employee>'',
          rjson = None\<rparr>) ''token-1'') = Inr [rec] \<and>
      last_wins_record rec example_employee)"
proof -
  let ?a = "\<lparr>status_code = 200,
      rtext = ''<employees><employee><id>7</id><name>Beta LLC</name></employee></employees>'',
      rjson = None\<rparr>"
  let ?b = "\<lparr>status_code = 200,
      rtext = ''<employee><id>7</id><phone>1</phone><phone>2</phone><supplier/></employee>'',
      rjson = None\<rparr>"
  have a: "\<not> http_error ?a" and b: "\<not> http_error ?b"
    by (simp_all add: http_error_def)
  have ja: "rjson ?a = None" and jb: "rjson ?b = None" by simp_all
  have xa: "example_fromstring (rtext ?a) = Some example_employees"
    by (simp add: example_fromstring_def)
  have xb: "example_fromstring (rtext ?b) = Some example_employee"
    by (simp add: example_fromstring_def)
  have ta: "tag example_employees = ''employees''" by (simp add: example_employees_def)
  have tb: "tag example_employee = ''employee''" by (simp add: example_employee_def)
  from xml_employee_records [where fs = example_fromstring and token = "''token-1''", OF a ja xa]
       xml_employee_records [where fs = example_fromstring and token = "''token-1''", OF b jb xb]
       ta tb a
  show ?thesis by blast
qed

text \<open>
  C5, as the specification words it, fails on an \<open>employee\<close> with two \<open>phone\<close> children,
  \<open>1\<close> and then \<open>2\<close>: the record of the code holds \<open>2\<close> under \<open>phone\<close>, which is not the
  text content of the first of them.
\<close>

theorem repeated_tag_not_own_text:
  "snd (fetch_all_suppliers example_fromstring
     (Reply \<lparr>status_code = 200,
        rtext = ''<employee><id>7</id><phone>1</phone><phone>2</phone><supplier/></employee>'',
        rjson = None\<rparr>) ''token-1'') =
     Inr [JObj [(''id'', JStr ''7''), (''phone'', JStr ''2''), (''supplier'', JStr [])]] \<and>
   \<not> spec_record_of (JObj [(''id'', JStr ''7''), (''phone'', JStr ''2''), (''supplier'', JStr [])])
       example_employee"
  by code_simp

text \<open>
  C6. When \<open>response.json()\<close> fails and the body is a well-formed XML document whose root
  tag is neither \<open>employees\<close> nor \<open>employee\<close>, the fetch logs the tag as an error and
  returns the empty list; it does not raise.
\<close>

theorem unknown_root_tag_empty:
  assumes "\<not> http_error r" and "rjson r = None" and "fs (rtext r) = Some root_elem"
    and "tag root_elem \<noteq> ''employees''" and "tag root_elem \<noteq> ''employee''"
  shows "fetch_all_suppliers fs (Reply r) token =
           ([Request GET (IIKO_HOST @ ''/resto/api/suppliers'') [(''key'', token)],
             Log Warning Xml_fallback, Log Error (Unknown_root (tag root_elem))], Inr [])"
  using assms by (simp add: fetch_all_suppliers_def)

text \<open>An HTML error page in place of the directory.\<close>

theorem unknown_root_tag_empty_witness:
  "\<not> http_error \<lparr>status_code = 200, rtext = ''<html><body>Bad Gateway</body></html>'',
      rjson = None\<rparr> \<and>
   fetch_all_suppliers example_fromstring
     (Reply \<lparr>status_code = 200, rtext = ''<html><body>Bad Gateway</body></html>'',
        rjson = None\<rparr>) ''token-1'' =
     ([Request GET (IIKO_HOST @ ''/resto/api/suppliers'') [(''key'', ''token-1'')],
       Log Warning Xml_fallback, Log Error (Unknown_root ''html'')], Inr [])"
proof -
  let ?r = "\<lparr>status_code = 200, rtext = ''<html><body>Bad Gateway</body></html>'',
      rjson = None\<rparr>"
  have a: "\<not> http_error ?r" by (simp add: http_error_def)
  have j: "rjson ?r = None" by simp
  have x: "example_fromstring (rtext ?r) = Some example_html"
    by (simp add: example_fromstring_def)
  have t1: "tag example_html \<noteq> ''employees''" and t2: "tag example_html \<noteq> ''employee''"
    by (simp_all add: example_html_def)
  have t: "tag example_html = ''html''" by (simp add: example_html_def)
  from unknown_root_tag_empty [where fs = example_fromstring and token = "''token-1''",
         OF a j x t1 t2] a
  show ?thesis by (simp only: t simp_thms)
qed

text \<open>
  C9. When two or more immediate children of an \<open>employee\<close> element carry the same tag
  name, the record holds that key once, and under it the text of the last of these
  children in document order.
\<close>

theorem duplicate_tag_last_wins:
  assumes "2 \<le> length (tagged t emp)"
  shows "map_of (emp_data emp) t = Some (JStr (text_or_empty (last (tagged t emp)))) \<and>
         count_list (map fst (emp_data emp)) t = 1"
proof -
  from assms have ne: "tagged t emp \<noteq> []" by auto
  then have "t \<in> tag ` set (children emp)"
    by (auto simp: tagged_def filter_empty_conv)
  then have "t \<in> set (map fst (emp_data emp))"
    by (simp add: emp_data_keys)
  then have "count_list (map fst (emp_data emp)) t = 1"
    using emp_data_distinct [of emp] by (simp add: count_list_distinct)
  with ne show ?thesis by (simp add: emp_data_lookup)
qed

text \<open>An employee with two \<open>phone\<close> children, \<open>1\<close> and then \<open>2\<close>.\<close>

theorem duplicate_tag_last_wins_witness:
  "2 \<le> length (tagged ''phone'' example_employee) \<and>
   map_of (emp_data example_employee) ''phone'' = Some (JStr ''2'') \<and>
   count_list (map fst (emp_data example_employee)) ''phone'' = 1"
proof -
  have h: "2 \<le> length (tagged ''phone'' example_employee)"
    by (simp add: tagged_def example_employee_def)
  have e: "text_or_empty (last (tagged ''phone'' example_employee)) = ''2''"
    by (simp add: tagged_def example_employee_def text_or_empty_def)
  from duplicate_tag_last_wins [OF h] h show ?thesis by (simp only: e)
qed

section \<open>The directory client\<close>

text \<open>
  C8. When the request for the directory fails, by the transport or by a 4xx or 5xx
  status, the fetch logs the cause as an error and returns the empty list. A run whose
  login succeeded then goes on: it prints the notice of an empty directory, reports the
  name as not found, logs out and returns.
\<close>

theorem fetch_failure_continues:
  assumes "request_failure (auth_reply e) = None"
    and "request_failure (suppliers_reply e) = Some c"
  shows "fetch_all_suppliers (fromstring e) (suppliers_reply e) token =
           ([Request GET (IIKO_HOST @ ''/resto/api/suppliers'') [(''key'', token)],
             Log Error (Fetch_failed c)], Inr []) \<and>
         snd (main e) = Returned \<and>
         (\<exists>evs tok. fst (main e) =
            evs @ [Request GET (IIKO_HOST @ ''/resto/api/suppliers'') [(''key'', tok)],
                   Log Error (Fetch_failed c), Print_empty,
                   Log Warning (Not_found (search_name e))] @ logout (logout_reply e) tok)"
proof -
  obtain evs tok where l: "login (auth_reply e) = (evs, Inr tok)"
    using login_ok [OF assms(1)] by blast
  have "main e = (evs @ [Request GET (IIKO_HOST @ ''/resto/api/suppliers'') [(''key'', tok)],
                   Log Error (Fetch_failed c), Print_empty,
                   Log Warning (Not_found (search_name e))] @ logout (logout_reply e) tok, Returned)"
    by (simp add: main_def main_try_def l fetch_request_failure [OF assms(2)] pretty_print_suppliers_def)
  then show ?thesis
    by (auto simp: fetch_request_failure [OF assms(2)])
qed

text \<open>A status 503 from the suppliers endpoint, and a timeout of the request.\<close>

theorem fetch_failure_continues_witness:
  "request_failure (auth_reply (example_env
      (Reply \<lparr>status_code = 503, rtext = ''Service Unavailable'', rjson = None\<rparr>)
      ''acme co'')) = None \<and>
   request_failure (Reply \<lparr>status_code = 503, rtext = ''Service Unavailable'', rjson = None\<rparr>) =
     Some (Http_status 503) \<and>
   snd (main (example_env
      (Reply \<lparr>status_code = 503, rtext = ''Service Unavailable'', rjson = None\<rparr>)
      ''acme co'')) = Returned \<and>
   request_failure (Transport_error ''timed out'') = Some (Transport ''timed out'') \<and>
   snd (main (example_env (Transport_error ''timed out'') ''acme co'')) = Returned"
proof -
  let ?a = "Reply \<lparr>status_code = 503, rtext = ''Service Unavailable'', rjson = None\<rparr>"
  let ?b = "Transport_error ''timed out''"
  have la: "request_failure (auth_reply (example_env ?a ''acme co'')) = None"
    and lb: "request_failure (auth_reply (example_env ?b ''acme co'')) = None"
    by (simp_all add: example_env_def example_reply_def http_error_def)
  have fa: "request_failure ?a = Some (Http_status 503)"
    and fb: "request_failure ?b = Some (Transport ''timed out'')"
    by (simp_all add: http_error_def)
  have sa: "request_failure (suppliers_reply (example_env ?a ''acme co'')) = Some (Http_status 503)"
    and sb: "request_failure (suppliers_reply (example_env ?b ''acme co'')) =
               Some (Transport ''timed out'')"
    by (simp_all add: example_env_def http_error_def)
  from fetch_failure_continues [OF la sa]
  have ra: "snd (main (example_env ?a ''acme co'')) = Returned" by blast
  from fetch_failure_continues [OF lb sb]
  have rb: "snd (main (example_env ?b ''acme co'')) = Returned" by blast
  from la fa ra fb rb show ?thesis by blast
qed

text \<open>
  C7. In every run whose login succeeds, the request to the logout endpoint is sent
  exactly once, whatever the fetch, the printing and the lookup do, also when one of them
  raises.
\<close>

theorem logout_exactly_once:
  assumes "request_failure (auth_reply e) = None"
  shows "logout_calls (fst (main e)) = 1"
proof -
  obtain evs tok where l: "login (auth_reply e) = (evs, Inr tok)"
    using login_ok [OF assms] by blast
  have "logout_calls evs = 0" using logout_calls_login [of "auth_reply e"] l by simp
  moreover obtain evt r where t: "main_try e tok = (evt, r)" by (cases "main_try e tok")
  moreover have "logout_calls evt = 0" using logout_calls_try [of e tok] t by simp
  ultimately show ?thesis using l by (simp add: main_def)
qed

text \<open>A run in which the XML parser raises inside the fetch.\<close>

theorem logout_exactly_once_witness:
  "request_failure (auth_reply (example_env (example_reply ''<employees>'' None) ''acme co'')) = None \<and>
   logout_calls (fst (main (example_env (example_reply ''<employees>'' None) ''acme co''))) = 1"
proof -
  have h: "request_failure
             (auth_reply (example_env (example_reply ''<employees>'' None) ''acme co'')) = None"
    by (simp add: example_env_def example_reply_def http_error_def)
  from logout_exactly_once [OF h] h show ?thesis by (rule_tac conjI)
qed

section \<open>Lookup and report\<close>

text \<open>
  C2, as the code has it. Over records whose name, when present, is a string,
  \<open>fetch_supplier_id\<close> returns the \<open>id\<close> of the first record, in sequence order, whose
  name, trimmed and lower-cased, equals the lower-cased target; the target itself is not
  trimmed. It returns \<open>None\<close> when no record matches or the list is empty, and does not
  raise.
\<close>

theorem fetch_supplier_id_first_match:
  assumes "list_all is_record suppliers"
  shows "fetch_supplier_id suppliers q =
           Inr (case find (\<lambda>s. py_lower (py_strip (record_name s)) = py_lower q) suppliers of
                  None \<Rightarrow> JNull
                | Some s \<Rightarrow> record_id s)"
  using assms
  by (induction suppliers)
     (auto simp: is_record_def record_name_def record_id_def split: json.splits)

text \<open>Two records match \<open>acme co\<close>; the first of them wins.\<close>

theorem fetch_supplier_id_first_match_witness:
  "list_all is_record example_records \<and>
   fetch_supplier_id example_records ''acme co'' = Inr (JStr ''42'')"
proof -
  have h: "list_all is_record example_records" by code_simp
  have e: "(case find (\<lambda>s. py_lower (py_strip (record_name s)) = py_lower ''acme co'')
                  example_records of
              None \<Rightarrow> JNull
            | Some s \<Rightarrow> record_id s) = JStr ''42''"
    by code_simp
  from fetch_supplier_id_first_match [OF h, of "''acme co''"]
  have "fetch_supplier_id example_records ''acme co'' = Inr (JStr ''42'')"
    by (simp only: e)
  with h show ?thesis by (rule conjI)
qed

text \<open>
  C2, as the specification words it, fails on a target with a leading blank: trimming
  both sides makes the record \<open>Acme Co\<close> match \<open> acme co\<close>, and the code returns \<open>None\<close>.
\<close>

theorem query_not_trimmed:
  "fetch_supplier_id [JObj [(''id'', JStr ''42''), (''name'', JStr ''Acme Co'')]] '' acme co'' \<noteq>
   Inr (spec_findByName [JObj [(''id'', JStr ''42''), (''name'', JStr ''Acme Co'')]] '' acme co'')"
  by code_simp

text \<open>
  C10. When the first record whose name matches has no \<open>id\<close>, \<open>fetch_supplier_id\<close>
  returns \<open>None\<close>, the value it returns for the records before it, none of which matches;
  the run then logs the name as not found and returns.
\<close>

theorem missing_id_reported_not_found:
  assumes auth: "request_failure (auth_reply e) = None"
    and reply: "suppliers_reply e = Reply r" "\<not> http_error r"
               "rjson r = Some (JArr (pre @ JObj d # rest))"
    and pre: "list_all (\<lambda>s. is_record s \<and>
                py_lower (py_strip (record_name s)) \<noteq> py_lower (search_name e)) pre"
    and hit: "dict_get d ''name'' (JStr []) = JStr n"
             "py_lower (py_strip n) = py_lower (search_name e)"
             "map_of d ''id'' = None"
    and rest: "list_all is_dict rest"
  shows "fetch_supplier_id (pre @ JObj d # rest) (search_name e) = Inr JNull \<and>
         fetch_supplier_id pre (search_name e) = Inr JNull \<and>
         snd (main e) = Returned \<and>
         (\<exists>evs tok rows. fst (main e) =
            evs @ [Request GET (IIKO_HOST @ ''/resto/api/suppliers'') [(''key'', tok)],
                   Print_table rows, Log Warning (Not_found (search_name e))]
                @ logout (logout_reply e) tok)"
proof -
  let ?xs = "pre @ JObj d # rest"
  have found: "fetch_supplier_id ?xs (search_name e) = Inr JNull"
    using hit by (simp add: fetch_supplier_id_skip [OF pre] dict_get_def)
  have none: "fetch_supplier_id pre (search_name e) = Inr JNull"
    using fetch_supplier_id_skip [OF pre, of "[]"] by simp
  have "list_all is_dict pre"
    using pre by (auto simp: list_all_iff is_record_dict)
  with rest have "list_all is_dict ?xs" by simp
  then obtain rows where rows: "table_rows ?xs = Inr rows"
    using table_rows_dicts by blast
  obtain evs tok where l: "login (auth_reply e) = (evs, Inr tok)"
    using login_ok [OF auth] by blast
  have f: "fetch_all_suppliers (fromstring e) (suppliers_reply e) tok =
             ([Request GET (IIKO_HOST @ ''/resto/api/suppliers'') [(''key'', tok)]], Inr ?xs)"
    using reply by (simp add: fetch_all_suppliers_def)
  have "main e = (evs @ [Request GET (IIKO_HOST @ ''/resto/api/suppliers'') [(''key'', tok)],
                   Print_table rows, Log Warning (Not_found (search_name e))]
                @ logout (logout_reply e) tok, Returned)"
    by (simp add: main_def main_try_def l f pretty_print_suppliers_def rows found)
  with found none show ?thesis by auto
qed

text \<open>The directory \<open>example_no_id\<close>, searched for \<open>acme co\<close>.\<close>

theorem missing_id_reported_not_found_witness:
  "request_failure (auth_reply (example_env
      (example_reply example_no_id_body (Some (JArr example_no_id))) ''acme co'')) = None \<and>
   map_of [(''code'', JStr ''A1''), (''name'', JStr ''Acme Co'')] ''id'' = None \<and>
   py_lower (py_strip ''Acme Co'') = py_lower ''acme co'' \<and>
   fetch_supplier_id example_no_id ''acme co'' = Inr JNull \<and>
   snd (main (example_env
      (example_reply example_no_id_body (Some (JArr example_no_id))) ''acme co'')) = Returned"
proof -
  let ?r = "\<lparr>status_code = 200, rtext = example_no_id_body, rjson = Some (JArr example_no_id)\<rparr>"
  let ?e = "example_env (example_reply example_no_id_body (Some (JArr example_no_id))) ''acme co''"
  let ?pre = "[JObj [(''id'', JStr ''41''), (''name'', JStr ''Beta LLC'')]]"
  let ?d = "[(''code'', JStr ''A1''), (''name'', JStr ''Acme Co'')]"
  let ?rest = "[JObj [(''id'', JStr ''43''), (''name'', JStr ''Gamma'')]]"
  have sn: "search_name ?e = ''acme co''" by (simp add: example_env_def)
  have xs: "?pre @ JObj ?d # ?rest = example_no_id" by (simp add: example_no_id_def)
  have auth: "request_failure (auth_reply ?e) = None"
    by (simp add: example_env_def example_reply_def http_error_def)
  have r1: "suppliers_reply ?e = Reply ?r" by (simp add: example_env_def example_reply_def)
  have r2: "\<not> http_error ?r" by (simp add: http_error_def)
  have r3: "rjson ?r = Some (JArr (?pre @ JObj ?d # ?rest))" by (simp add: example_no_id_def)
  have pre: "list_all (\<lambda>s. is_record s \<and>
                py_lower (py_strip (record_name s)) \<noteq> py_lower (search_name ?e)) ?pre"
    unfolding sn by code_simp
  have h1: "dict_get ?d ''name'' (JStr []) = JStr ''Acme Co''" by (simp add: dict_get_def)
  have h2: "py_lower (py_strip ''Acme Co'') = py_lower (search_name ?e)"
    unfolding sn by code_simp
  have h3: "map_of ?d ''id'' = None" by simp
  have rest: "list_all is_dict ?rest" by simp
  from missing_id_reported_not_found [OF auth r1 r2 r3 pre h1 h2 h3 rest]
  have "fetch_supplier_id example_no_id ''acme co'' = Inr JNull \<and> snd (main ?e) = Returned"
    unfolding sn xs by blast
  with auth h3 h2 [unfolded sn] show ?thesis by blast
qed

section \<open>A body that is neither JSON nor XML\<close>

text \<open>
  C1. A body that is neither JSON nor well-formed XML, \<open><employees>\<close>: the fetch logs that
  it falls back to XML and then raises the parser's error instead of returning an empty
  list. \<open>main\<close> still logs out, but it prints and reports nothing, and the exception
  leaves it.
\<close>

theorem malformed_body_raises:
  "fetch_all_suppliers example_fromstring (example_reply ''<employees>'' None) ''token-1'' =
     ([Request GET ''/resto/api/suppliers'' [(''key'', ''token-1'')], Log Warning Xml_fallback],
      Inl ParseError) \<and>
   main (example_env (example_reply ''<employees>'' None) ''acme co'') =
     ([Request POST ''/resto/api/auth'' [(''login'', []), (''pass'', [])],
       Log Info (Auth_ok ''token-1''),
       Request GET ''/resto/api/suppliers'' [(''key'', ''token-1'')],
       Log Warning Xml_fallback,
       Request POST ''/resto/api/logout'' [(''key'', ''token-1'')],
       Log Info Logout_ok],
      Uncaught ParseError)"
  by code_simp

text \<open>
  C3. The same run ends with exit status 1 although its login succeeded: the uncaught
  parser error is a second cause of a non-zero exit.
\<close>

theorem malformed_body_exit_status:
  "request_failure (auth_reply (example_env (example_reply ''<employees>'' None) ''acme co'')) = None \<and>
   exit_status (snd (main (example_env (example_reply ''<employees>'' None) ''acme co''))) = 1"
  by code_simp

end
